theory Spec2Isabelle
  imports Main "HOL-Library.Sublist" "HOL-Library.AList"
begin

section \<open>Python values and exceptions\<close>

text \<open>
  The trust policy document that boto3 hands to \<^verbatim>\<open>update_trust_policy\<close> is the result
  of parsing JSON, so the Python values the code inspects are \<^verbatim>\<open>None\<close>, booleans,
  numbers, strings, lists and dicts with string keys. A dict is an association list in
  insertion order, read with \<open>map_of\<close>. A number is kept as an integer: every operation
  the code applies to a number (\<^verbatim>\<open>.get\<close>, iteration, \<^verbatim>\<open>in\<close>, subscripting, comparison
  with a string) has the same outcome for every number.
\<close>

datatype json =
    JNull
  | JBool bool
  | JNum int
  | JStr string
  | JArr "json list"
  | JObj "(string \<times> json) list"

text \<open>
  The exception classes that decide the control flow. \<open>ClientError\<close> is
  \<^verbatim>\<open>botocore.exceptions.ClientError\<close> with its error code; \<open>BotoCoreError\<close> stands for
  every other exception the SDK raises (endpoint connection errors, missing credentials,
  ...), which is an \<^verbatim>\<open>Exception\<close> but not a \<^verbatim>\<open>ClientError\<close>. The other three are the
  built-in errors of the dict, list and string operations. All five are subclasses of
  \<^verbatim>\<open>Exception\<close>; \<^verbatim>\<open>KeyboardInterrupt\<close> and \<^verbatim>\<open>SystemExit\<close>, which no operation of
  the code raises by itself, are not modelled.
\<close>

datatype exn =
    ClientError string
  | BotoCoreError string
  | KeyError string
  | AttributeError
  | TypeError

type_synonym 'a result = "exn + 'a"

text \<open>\<^verbatim>\<open>obj.get(key, default)\<close>: only a dict has the method.\<close>

definition dict_get :: "json \<Rightarrow> string \<Rightarrow> json \<Rightarrow> json result" where
  "dict_get obj k d =
     (case obj of
        JObj kvs \<Rightarrow> Inr (case map_of kvs k of Some v \<Rightarrow> v | None \<Rightarrow> d)
      | _ \<Rightarrow> Inl AttributeError)"

text \<open>\<^verbatim>\<open>obj[key]\<close> with a string key: \<^verbatim>\<open>KeyError\<close> on a dict without the key,
  \<^verbatim>\<open>TypeError\<close> on anything that is not a dict.\<close>

definition subscript :: "json \<Rightarrow> string \<Rightarrow> json result" where
  "subscript obj k =
     (case obj of
        JObj kvs \<Rightarrow> (case map_of kvs k of Some v \<Rightarrow> Inr v | None \<Rightarrow> Inl (KeyError k))
      | _ \<Rightarrow> Inl TypeError)"

text \<open>\<^verbatim>\<open>for x in obj\<close>: a list yields its elements, a dict its keys, a string its
  one-character strings; nothing else is iterable.\<close>

definition iterate :: "json \<Rightarrow> json list result" where
  "iterate obj =
     (case obj of
        JArr xs \<Rightarrow> Inr xs
      | JObj kvs \<Rightarrow> Inr (map (\<lambda>kv. JStr (fst kv)) kvs)
      | JStr s \<Rightarrow> Inr (map (\<lambda>c. JStr [c]) s)
      | _ \<Rightarrow> Inl TypeError)"

text \<open>The caller's ARN is a string or \<^verbatim>\<open>None\<close> (what \<^verbatim>\<open>get_current_role_arn\<close> returns).\<close>

definition arn_value :: "string option \<Rightarrow> json" where
  "arn_value arn = (case arn of Some s \<Rightarrow> JStr s | None \<Rightarrow> JNull)"

text \<open>
  \<^verbatim>\<open>x in obj\<close> for \<open>x\<close> a string or \<^verbatim>\<open>None\<close>: element equality on a list, substring
  search on a string (a \<^verbatim>\<open>TypeError\<close> when \<open>x\<close> is \<^verbatim>\<open>None\<close>), key membership on a dict,
  and a \<^verbatim>\<open>TypeError\<close> on a value that is not a container.
\<close>

definition contains :: "string option \<Rightarrow> json \<Rightarrow> bool result" where
  "contains x obj =
     (case obj of
        JArr xs \<Rightarrow> Inr (arn_value x \<in> set xs)
      | JStr t \<Rightarrow> (case x of Some s \<Rightarrow> Inr (sublist s t) | None \<Rightarrow> Inl TypeError)
      | JObj kvs \<Rightarrow> (case x of Some s \<Rightarrow> Inr (s \<in> set (map fst kvs)) | None \<Rightarrow> Inr False)
      | _ \<Rightarrow> Inl TypeError)"

section \<open>The remote services and the observable trace\<close>

text \<open>
  boto3 is not part of the repository: the four remote operations and the construction of
  a client are parameters. Each takes the state of the remote side and returns either the
  exception it raises or its response, with the new remote state. The caller-identity
  response is a dict of strings.
\<close>

record 's service =
  client :: "string \<Rightarrow> 's \<Rightarrow> unit result \<times> 's"
  get_caller_identity :: "'s \<Rightarrow> (string \<times> string) list result \<times> 's"
  get_role :: "string \<Rightarrow> 's \<Rightarrow> json result \<times> 's"
  update_assume_role_policy :: "string \<Rightarrow> json \<Rightarrow> 's \<Rightarrow> unit result \<times> 's"
  sts_assume_role :: "string \<Rightarrow> string \<Rightarrow> 's \<Rightarrow> json result \<times> 's"

text \<open>One constructor for each \<^verbatim>\<open>print\<close> of the source, with the values it interpolates.\<close>

datatype message =
    AccountIdError exn
  | RoleArnError exn
  | AlreadyAllowed "string option" string
  | ErrorOccurred exn
  | Updated string "string option"
  | Waiting
  | AssumeFailed exn

datatype event =
    Client string
  | GetCallerIdentity
  | GetRole string
  | UpdateAssumeRolePolicy string json
  | AssumeRole string string
  | Sleep nat
  | Print message

record 's world =
  remote :: 's
  trace :: "event list"

definition invoke :: "event \<Rightarrow> ('s \<Rightarrow> 'a result \<times> 's) \<Rightarrow> 's world \<Rightarrow> 'a result \<times> 's world" where
  "invoke ev f w =
     (case f (remote w) of (r, s) \<Rightarrow> (r, \<lparr>remote = s, trace = trace w @ [ev]\<rparr>))"

definition emit :: "event \<Rightarrow> 's world \<Rightarrow> 's world" where
  "emit ev w = \<lparr>remote = remote w, trace = trace w @ [ev]\<rparr>"

section \<open>The functions of iam\_auto\_assume.py\<close>

definition get_current_account_id :: "'s service \<Rightarrow> 's world \<Rightarrow> string option \<times> 's world" where
  "get_current_account_id svc w =
     (case invoke (Client ''sts'') (client svc ''sts'') w of
        (Inl e, w1) \<Rightarrow> (None, emit (Print (AccountIdError e)) w1)
      | (Inr u, w1) \<Rightarrow>
          (case invoke GetCallerIdentity (get_caller_identity svc) w1 of
             (Inl e, w2) \<Rightarrow> (None, emit (Print (AccountIdError e)) w2)
           | (Inr identity, w2) \<Rightarrow>
               (case map_of identity ''Account'' of
                  None \<Rightarrow> (None, emit (Print (AccountIdError (KeyError ''Account''))) w2)
                | Some a \<Rightarrow> (Some a, w2))))"

definition format_account_id :: "string option \<Rightarrow> string" where
  "format_account_id account_id = (case account_id of Some a \<Rightarrow> a | None \<Rightarrow> ''None'')"

definition construct_role_arn :: "'s service \<Rightarrow> string \<Rightarrow> 's world \<Rightarrow> string \<times> 's world" where
  "construct_role_arn svc role_name w =
     (case get_current_account_id svc w of
        (account_id, w1) \<Rightarrow>
          (''arn:aws:iam::'' @ format_account_id account_id @ '':role/'' @ role_name, w1))"

definition get_current_role_arn :: "'s service \<Rightarrow> 's world \<Rightarrow> string option \<times> 's world" where
  "get_current_role_arn svc w =
     (case invoke (Client ''sts'') (client svc ''sts'') w of
        (Inl e, w1) \<Rightarrow> (None, emit (Print (RoleArnError e)) w1)
      | (Inr u, w1) \<Rightarrow>
          (case invoke GetCallerIdentity (get_caller_identity svc) w1 of
             (Inl e, w2) \<Rightarrow> (None, emit (Print (RoleArnError e)) w2)
           | (Inr identity, w2) \<Rightarrow>
               (case map_of identity ''Arn'' of
                  None \<Rightarrow> (None, emit (Print (RoleArnError (KeyError ''Arn''))) w2)
                | Some a \<Rightarrow> (Some a, w2))))"

text \<open>The condition of the \<^verbatim>\<open>if\<close> in the scanning loop; \<^verbatim>\<open>and\<close> does not evaluate its
  right operand when the effect is not \<^verbatim>\<open>"Allow"\<close>.\<close>

definition statement_allows :: "string option \<Rightarrow> json \<Rightarrow> bool result" where
  "statement_allows current_role_arn statement =
     (case dict_get statement ''Effect'' JNull of
        Inl e \<Rightarrow> Inl e
      | Inr effect \<Rightarrow>
          if effect = JStr ''Allow'' then
            (case dict_get statement ''Principal'' (JObj []) of
               Inl e \<Rightarrow> Inl e
             | Inr principal_value \<Rightarrow>
                 (case dict_get principal_value ''AWS'' (JArr []) of
                    Inl e \<Rightarrow> Inl e
                  | Inr aws \<Rightarrow> contains current_role_arn aws))
          else Inr False)"

text \<open>The \<^verbatim>\<open>for\<close> loop: \<open>Inr True\<close> when it reaches the \<^verbatim>\<open>return\<close>, \<open>Inr False\<close> when it
  runs to the end, \<open>Inl e\<close> when a statement raises.\<close>

fun scan :: "string option \<Rightarrow> json list \<Rightarrow> bool result" where
  "scan current_role_arn [] = Inr False"
| "scan current_role_arn (statement # rest) =
     (case statement_allows current_role_arn statement of
        Inl e \<Rightarrow> Inl e
      | Inr found \<Rightarrow> if found then Inr True else scan current_role_arn rest)"

definition new_statement :: "string option \<Rightarrow> json" where
  "new_statement current_role_arn =
     JObj [(''Effect'', JStr ''Allow''),
           (''Principal'', JObj [(''AWS'', arn_value current_role_arn)]),
           (''Action'', JStr ''sts:AssumeRole'')]"

text \<open>\<^verbatim>\<open>trust_policy["Statement"].append(new_statement)\<close>, returning the mutated document.\<close>

definition append_statement :: "json \<Rightarrow> json \<Rightarrow> json result" where
  "append_statement trust_policy st =
     (case trust_policy of
        JObj kvs \<Rightarrow>
          (case map_of kvs ''Statement'' of
             None \<Rightarrow> Inl (KeyError ''Statement'')
           | Some (JArr xs) \<Rightarrow> Inr (JObj (AList.update ''Statement'' (JArr (xs @ [st])) kvs))
           | Some _ \<Rightarrow> Inl AttributeError)
      | _ \<Rightarrow> Inl TypeError)"

text \<open>\<^verbatim>\<open>response['Role']['AssumeRolePolicyDocument']\<close>.\<close>

definition fetched_policy :: "json \<Rightarrow> json result" where
  "fetched_policy response =
     (case subscript response ''Role'' of
        Inl e \<Rightarrow> Inl e
      | Inr role \<Rightarrow> subscript role ''AssumeRolePolicyDocument'')"

text \<open>The body of the \<^verbatim>\<open>try\<close> block of \<^verbatim>\<open>update_trust_policy\<close>: \<open>Inl e\<close> is the exception
  that reaches the \<^verbatim>\<open>except\<close> clause.\<close>

definition update_trust_policy_try ::
    "'s service \<Rightarrow> string \<Rightarrow> string option \<Rightarrow> 's world \<Rightarrow> unit result \<times> 's world" where
  "update_trust_policy_try svc target_role_name current_role_arn w =
     (case invoke (GetRole target_role_name) (get_role svc target_role_name) w of
        (Inl e, w1) \<Rightarrow> (Inl e, w1)
      | (Inr response, w1) \<Rightarrow>
     (case fetched_policy response of
        Inl e \<Rightarrow> (Inl e, w1)
      | Inr trust_policy \<Rightarrow>
     (case dict_get trust_policy ''Statement'' (JArr []) of
        Inl e \<Rightarrow> (Inl e, w1)
      | Inr statement_value \<Rightarrow>
     (case iterate statement_value of
        Inl e \<Rightarrow> (Inl e, w1)
      | Inr statements \<Rightarrow>
     (case scan current_role_arn statements of
        Inl e \<Rightarrow> (Inl e, w1)
      | Inr found \<Rightarrow>
          if found then
            (Inr (), emit (Print (AlreadyAllowed current_role_arn target_role_name)) w1)
          else
     (case append_statement trust_policy (new_statement current_role_arn) of
        Inl e \<Rightarrow> (Inl e, w1)
      | Inr updated_policy \<Rightarrow>
     (case invoke (UpdateAssumeRolePolicy target_role_name updated_policy)
             (update_assume_role_policy svc target_role_name updated_policy) w1 of
        (Inl e, w2) \<Rightarrow> (Inl e, w2)
      | (Inr u, w2) \<Rightarrow>
          (Inr (),
           emit (Sleep 10)
             (emit (Print Waiting)
                (emit (Print (Updated target_role_name current_role_arn)) w2))))))))))"

definition update_trust_policy ::
    "'s service \<Rightarrow> string \<Rightarrow> string option \<Rightarrow> 's world \<Rightarrow> unit result \<times> 's world" where
  "update_trust_policy svc target_role_name current_role_arn w =
     (case invoke (Client ''iam'') (client svc ''iam'') w of
        (Inl e, w1) \<Rightarrow> (Inl e, w1)
      | (Inr u, w1) \<Rightarrow>
          (case update_trust_policy_try svc target_role_name current_role_arn w1 of
             (Inl e, w2) \<Rightarrow> (Inr (), emit (Print (ErrorOccurred e)) w2)
           | (Inr v, w2) \<Rightarrow> (Inr (), w2)))"

text \<open>The body of the \<^verbatim>\<open>try\<close> block of \<^verbatim>\<open>assume_role\<close>.\<close>

definition assume_role_try :: "'s service \<Rightarrow> string \<Rightarrow> 's world \<Rightarrow> json result \<times> 's world" where
  "assume_role_try svc role_arn w =
     (case invoke (AssumeRole role_arn ''TestRoleSession'')
             (sts_assume_role svc role_arn ''TestRoleSession'') w of
        (Inl e, w1) \<Rightarrow> (Inl e, w1)
      | (Inr assumed_role, w1) \<Rightarrow> (subscript assumed_role ''Credentials'', w1))"

text \<open>\<^verbatim>\<open>except botocore.exceptions.ClientError\<close> handles that class only; \<open>Inr JNull\<close> is
  the \<^verbatim>\<open>return None\<close>.\<close>

definition assume_role :: "'s service \<Rightarrow> string \<Rightarrow> 's world \<Rightarrow> json result \<times> 's world" where
  "assume_role svc role_arn w =
     (case invoke (Client ''sts'') (client svc ''sts'') w of
        (Inl e, w1) \<Rightarrow> (Inl e, w1)
      | (Inr u, w1) \<Rightarrow>
          (case assume_role_try svc role_arn w1 of
             (Inl (ClientError c), w2) \<Rightarrow> (Inr JNull, emit (Print (AssumeFailed (ClientError c))) w2)
           | (Inl e, w2) \<Rightarrow> (Inl e, w2)
           | (Inr credentials, w2) \<Rightarrow> (Inr credentials, w2)))"

definition auto_assume :: "'s service \<Rightarrow> string \<Rightarrow> 's world \<Rightarrow> json result \<times> 's world" where
  "auto_assume svc role_name w =
     (case get_current_role_arn svc w of
        (current_role_arn, w1) \<Rightarrow>
          (case update_trust_policy svc role_name current_role_arn w1 of
             (Inl e, w2) \<Rightarrow> (Inl e, w2)
           | (Inr u, w2) \<Rightarrow>
               (case construct_role_arn svc role_name w2 of
                  (role_arn, w3) \<Rightarrow> assume_role svc role_arn w3)))"

section \<open>An in-memory account, for concrete runs\<close>

text \<open>
  A remote side that stores one trust policy per role name. The identity, update and
  assume-role replies are fields, so that a run can make any of them fail.
\<close>

record account =
  identity_reply :: "(string \<times> string) list result"
  role_policies :: "(string \<times> json) list"
  update_reply :: "unit result"
  assume_reply :: "json result"

definition get_role_response :: "string \<Rightarrow> json \<Rightarrow> json" where
  "get_role_response role_name doc =
     JObj [(''Role'', JObj [(''RoleName'', JStr role_name), (''AssumeRolePolicyDocument'', doc)])]"

definition account_service :: "account service" where
  "account_service =
     \<lparr>client = (\<lambda>name a. (Inr (), a)),
      get_caller_identity = (\<lambda>a. (identity_reply a, a)),
      get_role = (\<lambda>role_name a.
        (case map_of (role_policies a) role_name of
           None \<Rightarrow> Inl (ClientError ''NoSuchEntity'')
         | Some doc \<Rightarrow> Inr (get_role_response role_name doc), a)),
      update_assume_role_policy = (\<lambda>role_name doc a.
        (case update_reply a of
           Inl e \<Rightarrow> (Inl e, a)
         | Inr u \<Rightarrow> (Inr (), a\<lparr>role_policies := AList.update role_name doc (role_policies a)\<rparr>))),
      sts_assume_role = (\<lambda>role_arn session a. (assume_reply a, a))\<rparr>"

text \<open>The writes a run issued.\<close>

definition writes :: "event list \<Rightarrow> event list" where
  "writes evs = filter (\<lambda>ev. case ev of UpdateAssumeRolePolicy r d \<Rightarrow> True | _ \<Rightarrow> False) evs"



text \<open>Whether a document has a \<^verbatim>\<open>Statement\<close> entry that is a list, and its statements.\<close>

definition has_statement_list :: "json \<Rightarrow> bool" where
  "has_statement_list doc =
     (case doc of
        JObj kvs \<Rightarrow> (case map_of kvs ''Statement'' of Some (JArr sts) \<Rightarrow> True | _ \<Rightarrow> False)
      | _ \<Rightarrow> False)"


text \<open>
  The part of the \<^verbatim>\<open>try\<close> block between the two remote calls, as one value: the
  exception raised there, \<open>Inr None\<close> for the early \<^verbatim>\<open>return\<close>, or the document that is
  sent to \<^verbatim>\<open>update_assume_role_policy\<close>. It is used to reason about
  \<open>update_trust_policy_try\<close>, which does not mention it.
\<close>

definition grant_plan :: "string option \<Rightarrow> json \<Rightarrow> json option result" where
  "grant_plan arn doc =
     (case dict_get doc ''Statement'' (JArr []) of
        Inl e \<Rightarrow> Inl e
      | Inr sv \<Rightarrow>
          (case iterate sv of
             Inl e \<Rightarrow> Inl e
           | Inr sts \<Rightarrow>
               (case scan arn sts of
                  Inl e \<Rightarrow> Inl e
                | Inr found \<Rightarrow>
                    if found then Inr None
                    else (case append_statement doc (new_statement arn) of
                            Inl e \<Rightarrow> Inl e
                          | Inr d \<Rightarrow> Inr (Some d)))))"

text \<open>An account whose role \<^verbatim>\<open>TestRole\<close> has a trust policy with no statement yet.\<close>

definition test_account :: account where
  "test_account =
     \<lparr>identity_reply =
        Inr [(''UserId'', ''AIDAEXAMPLE''), (''Account'', ''123456789012''),
             (''Arn'', ''arn:aws:iam::123456789012:user/dev'')],
      role_policies =
        [(''TestRole'',
          JObj [(''Version'', JStr ''2012-10-17''), (''Statement'', JArr [])])],
      update_reply = Inr (),
      assume_reply =
        Inr (JObj [(''Credentials'',
                    JObj [(''AccessKeyId'', JStr ''ASIAEXAMPLE''),
                          (''SecretAccessKey'', JStr ''secret''),
                          (''SessionToken'', JStr ''token'')])])\<rparr>"

text \<open>Variants of the account: the identity endpoint unreachable, a trust policy without
  a \<^verbatim>\<open>Statement\<close> entry, and no role at all.\<close>

definition offline_account :: account where
  "offline_account =
     test_account\<lparr>identity_reply := Inl (BotoCoreError ''EndpointConnectionError'')\<rparr>"

definition bare_account :: account where
  "bare_account =
     test_account\<lparr>role_policies := [(''TestRole'', JObj [(''Version'', JStr ''2012-10-17'')])]\<rparr>"

definition missing_role_account :: account where
  "missing_role_account = test_account\<lparr>role_policies := []\<rparr>"

text \<open>Accounts in which a remote call fails: the security-token service unreachable while
  IAM answers (and rejects a malformed document), the assume-role call alone unreachable or
  denied, the write denied, and the caller's token expired.\<close>

definition sts_down_account :: account where
  "sts_down_account =
     test_account\<lparr>identity_reply := Inl (BotoCoreError ''EndpointConnectionError''),
                  update_reply := Inl (ClientError ''MalformedPolicyDocument''),
                  assume_reply := Inl (BotoCoreError ''EndpointConnectionError'')\<rparr>"

definition assume_unreachable_account :: account where
  "assume_unreachable_account =
     test_account\<lparr>assume_reply := Inl (BotoCoreError ''EndpointConnectionError'')\<rparr>"

definition assume_denied_account :: account where
  "assume_denied_account = test_account\<lparr>assume_reply := Inl (ClientError ''AccessDenied'')\<rparr>"

definition update_denied_account :: account where
  "update_denied_account = test_account\<lparr>update_reply := Inl (ClientError ''AccessDenied'')\<rparr>"

definition expired_token_account :: account where
  "expired_token_account =
     test_account\<lparr>identity_reply := Inl (ClientError ''ExpiredToken''),
                  update_reply := Inl (ClientError ''MalformedPolicyDocument''),
                  assume_reply := Inl (ClientError ''ExpiredToken'')\<rparr>"

text \<open>Shorthands: a caller ARN, a statement with the given effect and \<^verbatim>\<open>Principal.AWS\<close>
  value, a policy document with the given statements, and the account whose \<^verbatim>\<open>TestRole\<close>
  holds a given document.\<close>

definition dev_arn :: string where
  "dev_arn = ''arn:aws:iam::123456789012:user/dev''"

definition statement :: "string \<Rightarrow> json \<Rightarrow> json" where
  "statement effect aws =
     JObj [(''Effect'', JStr effect), (''Principal'', JObj [(''AWS'', aws)]),
           (''Action'', JStr ''sts:AssumeRole'')]"

definition policy :: "json list \<Rightarrow> json" where
  "policy sts = JObj [(''Version'', JStr ''2012-10-17''), (''Statement'', JArr sts)]"

definition account_with :: "json \<Rightarrow> account" where
  "account_with doc = test_account\<lparr>role_policies := [(''TestRole'', doc)]\<rparr>"




section \<open>The trust policy update, outcome by outcome\<close>

lemma try_fetched:
  assumes "get_role svc role (remote w1) = (Inr response, s1)"
    and "fetched_policy response = Inr doc"
  shows "update_trust_policy_try svc role arn w1 =
     (case grant_plan arn doc of
        Inl e \<Rightarrow> (Inl e, \<lparr>remote = s1, trace = trace w1 @ [GetRole role]\<rparr>)
      | Inr None \<Rightarrow>
          (Inr (), \<lparr>remote = s1, trace = trace w1 @ [GetRole role, Print (AlreadyAllowed arn role)]\<rparr>)
      | Inr (Some d) \<Rightarrow>
          (case update_assume_role_policy svc role d s1 of
             (Inl e, s2) \<Rightarrow>
               (Inl e, \<lparr>remote = s2, trace = trace w1 @ [GetRole role, UpdateAssumeRolePolicy role d]\<rparr>)
           | (Inr u, s2) \<Rightarrow>
               (Inr (), \<lparr>remote = s2, trace = trace w1 @
                  [GetRole role, UpdateAssumeRolePolicy role d, Print (Updated role arn),
                   Print Waiting, Sleep 10]\<rparr>)))"
  using assms
  by (simp add: update_trust_policy_try_def grant_plan_def invoke_def emit_def
           split: sum.splits prod.splits option.splits)


lemma update_fetched:
  assumes "client svc ''iam'' (remote w) = (Inr (), s)"
    and "get_role svc role s = (Inr response, s1)"
    and "fetched_policy response = Inr doc"
  shows "update_trust_policy svc role arn w =
     (case grant_plan arn doc of
        Inl e \<Rightarrow>
          (Inr (), \<lparr>remote = s1, trace = trace w @
             [Client ''iam'', GetRole role, Print (ErrorOccurred e)]\<rparr>)
      | Inr None \<Rightarrow>
          (Inr (), \<lparr>remote = s1, trace = trace w @
             [Client ''iam'', GetRole role, Print (AlreadyAllowed arn role)]\<rparr>)
      | Inr (Some d) \<Rightarrow>
          (case update_assume_role_policy svc role d s1 of
             (Inl e, s2) \<Rightarrow>
               (Inr (), \<lparr>remote = s2, trace = trace w @
                  [Client ''iam'', GetRole role, UpdateAssumeRolePolicy role d,
                   Print (ErrorOccurred e)]\<rparr>)
           | (Inr u, s2) \<Rightarrow>
               (Inr (), \<lparr>remote = s2, trace = trace w @
                  [Client ''iam'', GetRole role, UpdateAssumeRolePolicy role d,
                   Print (Updated role arn), Print Waiting, Sleep 10]\<rparr>)))"
proof -
  let ?w1 = "\<lparr>remote = s, trace = trace w @ [Client ''iam'']\<rparr>"
  have g: "get_role svc role (remote ?w1) = (Inr response, s1)"
    using assms(2) by simp
  show ?thesis
    unfolding update_trust_policy_def
    by (simp add: invoke_def assms(1) try_fetched [OF g assms(3)] emit_def
             split: sum.splits prod.splits option.splits)
qed

lemma update_get_role_raises:
  assumes "client svc ''iam'' (remote w) = (Inr (), s)"
    and "get_role svc role s = (Inl e, s1)"
  shows "update_trust_policy svc role arn w =
     (Inr (), \<lparr>remote = s1, trace = trace w @
        [Client ''iam'', GetRole role, Print (ErrorOccurred e)]\<rparr>)"
  using assms
  by (simp add: update_trust_policy_def update_trust_policy_try_def invoke_def emit_def)

lemma update_returns_normally:
  assumes "client svc ''iam'' (remote w) = (Inr (), s)"
  shows "fst (update_trust_policy svc role arn w) = Inr ()"
  using assms
  by (simp add: update_trust_policy_def invoke_def split: sum.splits prod.splits)

lemma scan_False_iff:
  "scan arn sts = Inr False \<longleftrightarrow> (\<forall>st \<in> set sts. statement_allows arn st = Inr False)"
  by (induction sts) (auto split: sum.splits)

lemma scan_append:
  "scan arn pre = Inr False \<Longrightarrow> scan arn (pre @ rest) = scan arn rest"
  by (induction pre) (auto split: sum.splits if_splits)

lemma scan_member:
  "st \<in> set sts \<Longrightarrow> statement_allows arn st = Inr True \<Longrightarrow> scan arn sts \<noteq> Inr False"
  by (simp add: scan_False_iff) force

lemma scan_total:
  "(\<forall>st \<in> set sts. \<exists>b. statement_allows arn st = Inr b) \<Longrightarrow> \<exists>b. scan arn sts = Inr b"
  by (induction sts) (auto split: sum.splits)

lemma grant_plan_list:
  assumes "map_of kvs ''Statement'' = Some (JArr sts)"
  shows "grant_plan arn (JObj kvs) =
     (case scan arn sts of
        Inl e \<Rightarrow> Inl e
      | Inr found \<Rightarrow>
          if found then Inr None
          else Inr (Some (JObj (AList.update ''Statement'' (JArr (sts @ [new_statement arn])) kvs))))"
  using assms
  by (simp add: grant_plan_def dict_get_def iterate_def append_statement_def split: sum.splits)

lemma grant_plan_no_list:
  assumes "\<not> (\<exists>kvs sts. doc = JObj kvs \<and> map_of kvs ''Statement'' = Some (JArr sts))"
  shows "\<exists>e. grant_plan arn doc = Inl e"
proof (cases doc)
  case (JObj kvs)
  show ?thesis
  proof (cases "map_of kvs ''Statement''")
    case None
    then show ?thesis using JObj
      by (simp add: grant_plan_def dict_get_def iterate_def append_statement_def)
  next
    case (Some v)
    then have nl: "\<And>sts. v \<noteq> JArr sts" using assms JObj by auto
    show ?thesis
    proof (cases v)
      case (JStr t)
      then show ?thesis using JObj Some
        by (cases t)
           (simp_all add: grant_plan_def dict_get_def iterate_def append_statement_def
              statement_allows_def)
    next
      case (JObj fs)
      then show ?thesis using \<open>doc = JObj kvs\<close> Some
        by (cases fs)
           (simp_all add: grant_plan_def dict_get_def iterate_def append_statement_def
              statement_allows_def)
    next
      case (JArr sts)
      then show ?thesis using nl by simp
    qed (use JObj Some in \<open>simp_all add: grant_plan_def dict_get_def iterate_def\<close>)
  qed
qed (simp_all add: grant_plan_def dict_get_def)

lemma allows_string:
  assumes "map_of items ''Effect'' = Some (JStr ''Allow'')"
    and "map_of items ''Principal'' = Some (JObj p)"
    and "map_of p ''AWS'' = Some (JStr t)"
  shows "statement_allows (Some arn) (JObj items) = Inr (sublist arn t)"
  using assms by (simp add: statement_allows_def dict_get_def contains_def)

lemma allows_list:
  assumes "map_of items ''Effect'' = Some (JStr ''Allow'')"
    and "map_of items ''Principal'' = Some (JObj p)"
    and "map_of p ''AWS'' = Some (JArr xs)"
  shows "statement_allows (Some arn) (JObj items) = Inr (JStr arn \<in> set xs)"
  using assms by (simp add: statement_allows_def dict_get_def contains_def arn_value_def)


lemma update_scan_found:
  assumes "client svc ''iam'' (remote w) = (Inr (), s)"
    and "get_role svc role s = (Inr response, s1)"
    and "fetched_policy response = Inr (JObj kvs)"
    and "map_of kvs ''Statement'' = Some (JArr sts)"
    and "scan arn sts = Inr True"
  shows "update_trust_policy svc role arn w =
     (Inr (), \<lparr>remote = s1, trace = trace w @
        [Client ''iam'', GetRole role, Print (AlreadyAllowed arn role)]\<rparr>)"
  using update_fetched [OF assms(1-3), of arn] grant_plan_list [OF assms(4), of arn] assms(5)
  by simp

lemma update_scan_raises:
  assumes "client svc ''iam'' (remote w) = (Inr (), s)"
    and "get_role svc role s = (Inr response, s1)"
    and "fetched_policy response = Inr (JObj kvs)"
    and "map_of kvs ''Statement'' = Some (JArr sts)"
    and "scan arn sts = Inl e"
  shows "update_trust_policy svc role arn w =
     (Inr (), \<lparr>remote = s1, trace = trace w @
        [Client ''iam'', GetRole role, Print (ErrorOccurred e)]\<rparr>)"
  using update_fetched [OF assms(1-3), of arn] grant_plan_list [OF assms(4), of arn] assms(5)
  by simp

lemma update_scan_not_found:
  assumes "client svc ''iam'' (remote w) = (Inr (), s)"
    and "get_role svc role s = (Inr response, s1)"
    and "fetched_policy response = Inr (JObj kvs)"
    and "map_of kvs ''Statement'' = Some (JArr sts)"
    and "scan arn sts = Inr False"
    and "update_assume_role_policy svc role
           (JObj (AList.update ''Statement'' (JArr (sts @ [new_statement arn])) kvs)) s1 = (r, s2)"
  shows "update_trust_policy svc role arn w =
     (Inr (), \<lparr>remote = s2, trace = trace w @
        [Client ''iam'', GetRole role,
         UpdateAssumeRolePolicy role
           (JObj (AList.update ''Statement'' (JArr (sts @ [new_statement arn])) kvs))] @
        (case r of
           Inl e \<Rightarrow> [Print (ErrorOccurred e)]
         | Inr u \<Rightarrow> [Print (Updated role arn), Print Waiting, Sleep 10])\<rparr>)"
  using update_fetched [OF assms(1-3), of arn] grant_plan_list [OF assms(4), of arn] assms(5,6)
  by (simp split: sum.splits)

lemma writes_append: "writes (xs @ ys) = writes xs @ writes ys"
  by (simp add: writes_def)

lemma new_statement_allows: "statement_allows (Some arn) (new_statement (Some arn)) = Inr True"
  by (simp add: statement_allows_def new_statement_def dict_get_def contains_def arn_value_def)





section \<open>Failing remote calls and the trace of a run\<close>

lemma account_id_identity_raises:
  assumes "client svc ''sts'' (remote w) = (Inr (), s)"
    and "get_caller_identity svc s = (Inl e, s1)"
  shows "get_current_account_id svc w =
     (None, \<lparr>remote = s1, trace = trace w @
        [Client ''sts'', GetCallerIdentity, Print (AccountIdError e)]\<rparr>)"
  using assms by (simp add: get_current_account_id_def invoke_def emit_def)

lemma role_arn_identity_raises:
  assumes "client svc ''sts'' (remote w) = (Inr (), s)"
    and "get_caller_identity svc s = (Inl e, s1)"
  shows "get_current_role_arn svc w =
     (None, \<lparr>remote = s1, trace = trace w @
        [Client ''sts'', GetCallerIdentity, Print (RoleArnError e)]\<rparr>)"
  using assms by (simp add: get_current_role_arn_def invoke_def emit_def)

lemma assume_role_client_error:
  assumes "client svc ''sts'' (remote w) = (Inr (), s)"
    and "sts_assume_role svc role_arn ''TestRoleSession'' s = (Inl (ClientError c), s1)"
  shows "assume_role svc role_arn w =
     (Inr JNull, \<lparr>remote = s1, trace = trace w @
        [Client ''sts'', AssumeRole role_arn ''TestRoleSession'',
         Print (AssumeFailed (ClientError c))]\<rparr>)"
  using assms by (simp add: assume_role_def assume_role_try_def invoke_def emit_def)

lemma assume_role_other_error:
  assumes "client svc ''sts'' (remote w) = (Inr (), s)"
    and "sts_assume_role svc role_arn ''TestRoleSession'' s = (Inl e, s1)"
    and "\<forall>c. e \<noteq> ClientError c"
  shows "assume_role svc role_arn w =
     (Inl e, \<lparr>remote = s1, trace = trace w @
        [Client ''sts'', AssumeRole role_arn ''TestRoleSession'']\<rparr>)"
  using assms
  by (cases e) (simp_all add: assume_role_def assume_role_try_def invoke_def)

lemma update_write_raises:
  assumes "client svc ''iam'' (remote w) = (Inr (), s)"
    and "get_role svc role s = (Inr response, s1)"
    and "fetched_policy response = Inr (JObj kvs)"
    and "map_of kvs ''Statement'' = Some (JArr sts)"
    and "scan arn sts = Inr False"
    and "update_assume_role_policy svc role
           (JObj (AList.update ''Statement'' (JArr (sts @ [new_statement arn])) kvs)) s1 = (Inl e, s2)"
  shows "update_trust_policy svc role arn w =
     (Inr (), \<lparr>remote = s2, trace = trace w @
        [Client ''iam'', GetRole role,
         UpdateAssumeRolePolicy role
           (JObj (AList.update ''Statement'' (JArr (sts @ [new_statement arn])) kvs)),
         Print (ErrorOccurred e)]\<rparr>)"
  using update_scan_not_found [OF assms] by simp

lemma try_trace:
  "prefix (trace w @ [GetRole role]) (trace (snd (update_trust_policy_try svc role arn w)))"
  by (auto simp: update_trust_policy_try_def invoke_def emit_def prefix_def
           split: sum.splits prod.splits)

lemma update_trace_prefix:
  assumes "client svc ''iam'' (remote w) = (Inr (), s)"
  shows "prefix (trace w @ [Client ''iam'', GetRole role])
           (trace (snd (update_trust_policy svc role arn w)))"
proof -
  let ?w1 = "\<lparr>remote = s, trace = trace w @ [Client ''iam'']\<rparr>"
  obtain r w2 where t: "update_trust_policy_try svc role arn ?w1 = (r, w2)"
    by (cases "update_trust_policy_try svc role arn ?w1")
  have p: "prefix (trace w @ [Client ''iam'', GetRole role]) (trace w2)"
    using try_trace [of ?w1 role svc arn] t by simp
  show ?thesis
    using assms t p
    by (cases r) (auto simp: update_trust_policy_def invoke_def emit_def prefix_def)
qed

lemma account_id_trace: "prefix (trace w) (trace (snd (get_current_account_id svc w)))"
  by (auto simp: get_current_account_id_def invoke_def emit_def prefix_def
           split: sum.splits prod.splits option.splits)

lemma construct_trace: "prefix (trace w) (trace (snd (construct_role_arn svc role_name w)))"
  using account_id_trace [of w svc]
  by (auto simp: construct_role_arn_def split: prod.splits)

lemma assume_role_trace:
  "prefix (trace w @ [Client ''sts'']) (trace (snd (assume_role svc role_arn w)))"
  by (auto simp: assume_role_def assume_role_try_def invoke_def emit_def prefix_def
           split: sum.splits prod.splits exn.splits)

lemma assume_role_call_trace:
  assumes "client svc ''sts'' (remote w) = (Inr (), s)"
  shows "prefix (trace w @ [Client ''sts'', AssumeRole role_arn ''TestRoleSession''])
           (trace (snd (assume_role svc role_arn w)))"
  using assms
  by (auto simp: assume_role_def assume_role_try_def invoke_def emit_def prefix_def
           split: sum.splits prod.splits exn.splits)

section \<open>Facts about the in-memory account\<close>

lemma account_client: "client account_service name a = (Inr (), a)"
  by (simp add: account_service_def)

lemma account_get_role:
  "map_of (role_policies a) role = Some doc \<Longrightarrow>
   get_role account_service role a = (Inr (get_role_response role doc), a)"
  by (simp add: account_service_def)

lemma fetched_get_role_response: "fetched_policy (get_role_response role doc) = Inr doc"
  by (simp add: fetched_policy_def get_role_response_def subscript_def)

lemma account_with_get_role:
  "get_role account_service ''TestRole'' (account_with doc) =
     (Inr (get_role_response ''TestRole'' doc), account_with doc)"
  by (rule account_get_role) (simp add: account_with_def)

section \<open>Building the role ARN\<close>

text \<open>
  C8. When the caller-identity lookup answers with account id \<open>account_id\<close>,
  \<open>construct_role_arn\<close> returns exactly \<^verbatim>\<open>arn:aws:iam::<account_id>:role/<role_name>\<close>,
  with the fixed partition \<^verbatim>\<open>aws\<close>; for account \<^verbatim>\<open>123456789012\<close> and role
  \<^verbatim>\<open>TestRole\<close> this is \<^verbatim>\<open>arn:aws:iam::123456789012:role/TestRole\<close>.
\<close>

theorem construct_role_arn_format:
  assumes "client svc ''sts'' (remote w) = (Inr (), s)"
    and "get_caller_identity svc s = (Inr identity, s1)"
    and "map_of identity ''Account'' = Some account_id"
  shows "construct_role_arn svc role_name w =
     (''arn:aws:iam::'' @ account_id @ '':role/'' @ role_name,
      \<lparr>remote = s1, trace = trace w @ [Client ''sts'', GetCallerIdentity]\<rparr>)"
  using assms
  by (simp add: construct_role_arn_def get_current_account_id_def invoke_def
        format_account_id_def)

theorem construct_role_arn_format_witness:
  "client account_service ''sts'' test_account = (Inr (), test_account) \<and>
   get_caller_identity account_service test_account =
     (Inr [(''UserId'', ''AIDAEXAMPLE''), (''Account'', ''123456789012''),
           (''Arn'', ''arn:aws:iam::123456789012:user/dev'')], test_account) \<and>
   construct_role_arn account_service ''TestRole'' \<lparr>remote = test_account, trace = []\<rparr> =
     (''arn:aws:iam::123456789012:role/TestRole'',
      \<lparr>remote = test_account, trace = [Client ''sts'', GetCallerIdentity]\<rparr>)"
proof -
  have c: "client account_service ''sts'' (remote \<lparr>remote = test_account, trace = []\<rparr>)
            = (Inr (), test_account)"
    by (simp add: account_service_def)
  have g: "get_caller_identity account_service test_account =
     (Inr [(''UserId'', ''AIDAEXAMPLE''), (''Account'', ''123456789012''),
           (''Arn'', ''arn:aws:iam::123456789012:user/dev'')], test_account)"
    by (simp add: account_service_def test_account_def)
  have m: "map_of [(''UserId'', ''AIDAEXAMPLE''), (''Account'', ''123456789012''),
           (''Arn'', ''arn:aws:iam::123456789012:user/dev'')] ''Account'' = Some ''123456789012''"
    by simp
  show ?thesis
    using construct_role_arn_format [OF c g m, of "''TestRole''"] c g by simp
qed

text \<open>
  C9. When the account id resolves to \<^verbatim>\<open>None\<close>, \<open>construct_role_arn\<close> still returns a
  string (its result type has no exception and no \<^verbatim>\<open>None\<close>): the ARN with the text
  \<^verbatim>\<open>None\<close> in the account position.
\<close>

theorem construct_role_arn_without_account:
  assumes "fst (get_current_account_id svc w) = None"
  shows "fst (construct_role_arn svc role_name w) = ''arn:aws:iam::None:role/'' @ role_name"
proof -
  obtain w1 where "get_current_account_id svc w = (None, w1)"
    using assms by (cases "get_current_account_id svc w") simp
  then show ?thesis
    by (simp add: construct_role_arn_def format_account_id_def)
qed

theorem construct_role_arn_without_account_witness:
  "fst (get_current_account_id account_service \<lparr>remote = offline_account, trace = []\<rparr>) = None \<and>
   fst (construct_role_arn account_service ''TestRole'' \<lparr>remote = offline_account, trace = []\<rparr>)
     = ''arn:aws:iam::None:role/TestRole''"
proof -
  have h: "fst (get_current_account_id account_service \<lparr>remote = offline_account, trace = []\<rparr>) = None"
    by (simp add: get_current_account_id_def invoke_def account_service_def offline_account_def)
  show ?thesis
    using construct_role_arn_without_account [OF h, of "''TestRole''"] h by simp
qed

section \<open>Errors inside the trust policy update\<close>

text \<open>
  C5. When the fetched trust policy document has no \<^verbatim>\<open>Statement\<close> list, whatever the
  document is, \<open>update_trust_policy\<close> returns normally: an exception is raised inside the
  \<^verbatim>\<open>try\<close> block, it is printed, no write is issued and the remote state is the one the
  fetch left.
\<close>

theorem update_without_statement_list:
  assumes "client svc ''iam'' (remote w) = (Inr (), s)"
    and "get_role svc role s = (Inr response, s1)"
    and "fetched_policy response = Inr doc"
    and "\<not> has_statement_list doc"
  shows "\<exists>e. update_trust_policy svc role arn w =
     (Inr (), \<lparr>remote = s1, trace = trace w @
        [Client ''iam'', GetRole role, Print (ErrorOccurred e)]\<rparr>)"
proof -
  have "\<not> (\<exists>kvs sts. doc = JObj kvs \<and> map_of kvs ''Statement'' = Some (JArr sts))"
    using assms(4) by (auto simp: has_statement_list_def)
  then obtain e where "grant_plan arn doc = Inl e"
    using grant_plan_no_list by blast
  then show ?thesis
    using update_fetched [OF assms(1-3), of arn] by simp
qed

theorem update_without_statement_list_witness:
  "\<not> has_statement_list (JObj [(''Version'', JStr ''2012-10-17'')]) \<and>
   (\<exists>e. update_trust_policy account_service ''TestRole''
          (Some ''arn:aws:iam::123456789012:user/dev'') \<lparr>remote = bare_account, trace = []\<rparr> =
        (Inr (), \<lparr>remote = bare_account, trace =
           [Client ''iam'', GetRole ''TestRole'', Print (ErrorOccurred e)]\<rparr>))"
proof -
  have c: "client account_service ''iam'' (remote \<lparr>remote = bare_account, trace = []\<rparr>)
            = (Inr (), bare_account)"
    by (simp add: account_service_def)
  have g: "get_role account_service ''TestRole'' bare_account =
     (Inr (get_role_response ''TestRole'' (JObj [(''Version'', JStr ''2012-10-17'')])), bare_account)"
    by (simp add: account_service_def bare_account_def test_account_def)
  have f: "fetched_policy (get_role_response ''TestRole'' (JObj [(''Version'', JStr ''2012-10-17'')]))
            = Inr (JObj [(''Version'', JStr ''2012-10-17'')])"
    by (simp add: fetched_policy_def get_role_response_def subscript_def)
  have n: "\<not> has_statement_list (JObj [(''Version'', JStr ''2012-10-17'')])"
    by (simp add: has_statement_list_def)
  show ?thesis
    using update_without_statement_list [OF c g f n] n by simp
qed

text \<open>
  C6. Once the IAM client exists, \<open>update_trust_policy\<close> returns normally whatever
  happens: every exception that leaves the \<^verbatim>\<open>try\<close> block (the fetch, the update and
  everything between them) is caught and printed, and the returned value is the same unit
  value as on success.
\<close>

theorem update_trust_policy_swallows:
  assumes "client svc ''iam'' (remote w) = (Inr (), s)"
  shows "fst (update_trust_policy svc role arn w) = Inr () \<and>
     (\<forall>e w2. update_trust_policy_try svc role arn \<lparr>remote = s, trace = trace w @ [Client ''iam'']\<rparr>
                = (Inl e, w2) \<longrightarrow>
        update_trust_policy svc role arn w = (Inr (), emit (Print (ErrorOccurred e)) w2)) \<and>
     (\<forall>w2. update_trust_policy_try svc role arn \<lparr>remote = s, trace = trace w @ [Client ''iam'']\<rparr>
                = (Inr (), w2) \<longrightarrow>
        update_trust_policy svc role arn w = (Inr (), w2))"
  using assms
  by (simp add: update_trust_policy_def invoke_def split: sum.splits prod.splits)

theorem update_trust_policy_swallows_witness:
  "update_trust_policy_try account_service ''TestRole'' (Some dev_arn)
     \<lparr>remote = missing_role_account, trace = [Client ''iam'']\<rparr> =
     (Inl (ClientError ''NoSuchEntity''),
      \<lparr>remote = missing_role_account, trace = [Client ''iam'', GetRole ''TestRole'']\<rparr>) \<and>
   update_trust_policy account_service ''TestRole'' (Some dev_arn)
     \<lparr>remote = missing_role_account, trace = []\<rparr> =
     (Inr (), \<lparr>remote = missing_role_account, trace =
        [Client ''iam'', GetRole ''TestRole'',
         Print (ErrorOccurred (ClientError ''NoSuchEntity''))]\<rparr>) \<and>
   update_trust_policy account_service ''TestRole'' (Some dev_arn)
     \<lparr>remote = test_account, trace = []\<rparr> =
     (Inr (), \<lparr>remote = account_with (policy [new_statement (Some dev_arn)]), trace =
        [Client ''iam'', GetRole ''TestRole'',
         UpdateAssumeRolePolicy ''TestRole'' (policy [new_statement (Some dev_arn)]),
         Print (Updated ''TestRole'' (Some dev_arn)), Print Waiting, Sleep 10]\<rparr>)"
proof -
  let ?m = "\<lparr>remote = missing_role_account, trace = []\<rparr>"
  let ?w = "\<lparr>remote = test_account, trace = []\<rparr>"
  let ?w2 = "\<lparr>remote = account_with (policy [new_statement (Some dev_arn)]), trace =
        [Client ''iam'', GetRole ''TestRole'',
         UpdateAssumeRolePolicy ''TestRole'' (policy [new_statement (Some dev_arn)]),
         Print (Updated ''TestRole'' (Some dev_arn)), Print Waiting, Sleep 10]\<rparr>"
  have cm: "client account_service ''iam'' (remote ?m) = (Inr (), missing_role_account)"
    by (simp add: account_client)
  have cw: "client account_service ''iam'' (remote ?w) = (Inr (), test_account)"
    by (simp add: account_client)
  have tm: "update_trust_policy_try account_service ''TestRole'' (Some dev_arn)
       \<lparr>remote = missing_role_account, trace = trace ?m @ [Client ''iam'']\<rparr> =
     (Inl (ClientError ''NoSuchEntity''),
      \<lparr>remote = missing_role_account, trace = [Client ''iam'', GetRole ''TestRole'']\<rparr>)"
    by (simp add: update_trust_policy_try_def invoke_def account_service_def
          missing_role_account_def)
  have tw: "update_trust_policy_try account_service ''TestRole'' (Some dev_arn)
       \<lparr>remote = test_account, trace = trace ?w @ [Client ''iam'']\<rparr> = (Inr (), ?w2)"
    by code_simp
  have 1: "update_trust_policy account_service ''TestRole'' (Some dev_arn) ?m =
     (Inr (), \<lparr>remote = missing_role_account, trace =
        [Client ''iam'', GetRole ''TestRole'',
         Print (ErrorOccurred (ClientError ''NoSuchEntity''))]\<rparr>)"
    using update_trust_policy_swallows [OF cm, of "''TestRole''" "Some dev_arn"] tm
    by (simp add: emit_def)
  have 2: "update_trust_policy account_service ''TestRole'' (Some dev_arn) ?w = (Inr (), ?w2)"
    using update_trust_policy_swallows [OF cw, of "''TestRole''" "Some dev_arn"] tw
    by blast
  show ?thesis using tm 1 2 by simp
qed

section \<open>The already-granted scan\<close>

text \<open>
  C3. A statement with effect \<^verbatim>\<open>Allow\<close> whose \<^verbatim>\<open>Principal.AWS\<close> is the caller's ARN as a
  single string, or a list that contains it, satisfies the scan's condition. When the fetched
  policy has such a statement, \<open>update_trust_policy\<close> returns normally and issues no write,
  and the remote state is the one the fetch left; when moreover no statement of the policy
  raises, the run ends with the already-allowed message.
\<close>

theorem scan_detects_string_and_list:
  assumes "client svc ''iam'' (remote w) = (Inr (), s)"
    and "get_role svc role s = (Inr response, s1)"
    and "fetched_policy response = Inr (JObj kvs)"
    and "map_of kvs ''Statement'' = Some (JArr sts)"
    and "JObj items \<in> set sts"
    and "map_of items ''Effect'' = Some (JStr ''Allow'')"
    and "map_of items ''Principal'' = Some (JObj p)"
    and "map_of p ''AWS'' = Some (JStr arn) \<or>
         (\<exists>xs. map_of p ''AWS'' = Some (JArr xs) \<and> JStr arn \<in> set xs)"
  shows "statement_allows (Some arn) (JObj items) = Inr True \<and>
     fst (update_trust_policy svc role (Some arn) w) = Inr () \<and>
     remote (snd (update_trust_policy svc role (Some arn) w)) = s1 \<and>
     writes (trace (snd (update_trust_policy svc role (Some arn) w))) = writes (trace w) \<and>
     ((\<forall>st \<in> set sts. \<exists>b. statement_allows (Some arn) st = Inr b) \<longrightarrow>
        trace (snd (update_trust_policy svc role (Some arn) w)) =
          trace w @ [Client ''iam'', GetRole role, Print (AlreadyAllowed (Some arn) role)])"
proof -
  have allows: "statement_allows (Some arn) (JObj items) = Inr True"
    using assms(8) allows_string [OF assms(6,7)] allows_list [OF assms(6,7)] by auto
  have nf: "scan (Some arn) sts \<noteq> Inr False"
    using scan_member [OF assms(5) allows] .
  consider (found) "scan (Some arn) sts = Inr True" | (raised) e where "scan (Some arn) sts = Inl e"
    using nf by (cases "scan (Some arn) sts") auto
  then have rest: "fst (update_trust_policy svc role (Some arn) w) = Inr () \<and>
     remote (snd (update_trust_policy svc role (Some arn) w)) = s1 \<and>
     writes (trace (snd (update_trust_policy svc role (Some arn) w))) = writes (trace w)"
  proof cases
    case found
    show ?thesis
      by (simp add: update_scan_found [OF assms(1-4) found] writes_append) (simp add: writes_def)
  next
    case raised
    show ?thesis
      by (simp add: update_scan_raises [OF assms(1-4) raised] writes_append) (simp add: writes_def)
  qed
  have msg: "trace (snd (update_trust_policy svc role (Some arn) w)) =
          trace w @ [Client ''iam'', GetRole role, Print (AlreadyAllowed (Some arn) role)]"
    if h: "\<forall>st \<in> set sts. \<exists>b. statement_allows (Some arn) st = Inr b"
  proof -
    obtain b where "scan (Some arn) sts = Inr b"
      using scan_total [OF h] by blast
    with nf have "scan (Some arn) sts = Inr True" by (cases b) auto
    then show ?thesis
      by (simp add: update_scan_found [OF assms(1-4)])
  qed
  show ?thesis using allows rest msg by blast
qed

theorem scan_detects_string_and_list_witness:
  "trace (snd (update_trust_policy account_service ''TestRole'' (Some dev_arn)
      \<lparr>remote = account_with (policy [statement ''Allow'' (JStr dev_arn)]), trace = []\<rparr>)) =
     [Client ''iam'', GetRole ''TestRole'', Print (AlreadyAllowed (Some dev_arn) ''TestRole'')] \<and>
   trace (snd (update_trust_policy account_service ''TestRole'' (Some dev_arn)
      \<lparr>remote = account_with
         (policy [statement ''Allow'' (JArr [JStr ''arn:aws:iam::123456789012:root'', JStr dev_arn])]),
       trace = []\<rparr>)) =
     [Client ''iam'', GetRole ''TestRole'', Print (AlreadyAllowed (Some dev_arn) ''TestRole'')]"
proof -
  let ?items = "\<lambda>aws. [(''Effect'', JStr ''Allow''), (''Principal'', JObj [(''AWS'', aws)]),
           (''Action'', JStr ''sts:AssumeRole'')]"
  let ?kvs = "\<lambda>aws. [(''Version'', JStr ''2012-10-17''), (''Statement'', JArr [JObj (?items aws)])]"
  let ?l = "JArr [JStr ''arn:aws:iam::123456789012:root'', JStr dev_arn]"
  have g: "get_role account_service ''TestRole'' (account_with (JObj (?kvs aws))) =
      (Inr (get_role_response ''TestRole'' (JObj (?kvs aws))), account_with (JObj (?kvs aws)))" for aws
    by (rule account_get_role) (simp add: account_with_def)
  have 1: "statement_allows (Some dev_arn) (JObj (?items (JStr dev_arn))) = Inr True \<and>
      trace (snd (update_trust_policy account_service ''TestRole'' (Some dev_arn)
        \<lparr>remote = account_with (JObj (?kvs (JStr dev_arn))), trace = []\<rparr>)) =
      [Client ''iam'', GetRole ''TestRole'', Print (AlreadyAllowed (Some dev_arn) ''TestRole'')]"
    using scan_detects_string_and_list [of account_service
        "\<lparr>remote = account_with (JObj (?kvs (JStr dev_arn))), trace = []\<rparr>"
        "account_with (JObj (?kvs (JStr dev_arn)))" "''TestRole''" _ _ "?kvs (JStr dev_arn)"
        "[JObj (?items (JStr dev_arn))]" "?items (JStr dev_arn)" "[(''AWS'', JStr dev_arn)]" dev_arn,
        OF _ g fetched_get_role_response]
    by (auto simp add: account_client)
  have 2: "statement_allows (Some dev_arn) (JObj (?items ?l)) = Inr True \<and>
      trace (snd (update_trust_policy account_service ''TestRole'' (Some dev_arn)
        \<lparr>remote = account_with (JObj (?kvs ?l)), trace = []\<rparr>)) =
      [Client ''iam'', GetRole ''TestRole'', Print (AlreadyAllowed (Some dev_arn) ''TestRole'')]"
    using scan_detects_string_and_list [of account_service
        "\<lparr>remote = account_with (JObj (?kvs ?l)), trace = []\<rparr>"
        "account_with (JObj (?kvs ?l))" "''TestRole''" _ _ "?kvs ?l"
        "[JObj (?items ?l)]" "?items ?l" "[(''AWS'', ?l)]" dev_arn,
        OF _ g fetched_get_role_response]
    by (auto simp add: account_client)
  show ?thesis using 1 2 by (simp add: policy_def statement_def)
qed

text \<open>
  C4. The \<^verbatim>\<open>in\<close> test on a string is a substring search: when the scan reaches an
  \<^verbatim>\<open>Allow\<close> statement whose \<^verbatim>\<open>Principal.AWS\<close> is a single string that properly contains
  the caller's ARN, \<open>update_trust_policy\<close> prints the already-allowed message and returns
  without a write, although that principal is not the caller's ARN.
\<close>

theorem substring_counts_as_granted:
  assumes "client svc ''iam'' (remote w) = (Inr (), s)"
    and "get_role svc role s = (Inr response, s1)"
    and "fetched_policy response = Inr (JObj kvs)"
    and "map_of kvs ''Statement'' = Some (JArr (pre @ JObj items # post))"
    and "scan (Some arn) pre = Inr False"
    and "map_of items ''Effect'' = Some (JStr ''Allow'')"
    and "map_of items ''Principal'' = Some (JObj p)"
    and "map_of p ''AWS'' = Some (JStr t)"
    and "strict_sublist arn t"
  shows "JStr t \<noteq> JStr arn \<and>
     update_trust_policy svc role (Some arn) w =
       (Inr (), \<lparr>remote = s1, trace = trace w @
          [Client ''iam'', GetRole role, Print (AlreadyAllowed (Some arn) role)]\<rparr>)"
proof -
  have "statement_allows (Some arn) (JObj items) = Inr True"
    using allows_string [OF assms(6-8)] assms(9) by (simp add: strict_sublist_def)
  then have "scan (Some arn) (pre @ JObj items # post) = Inr True"
    by (simp add: scan_append [OF assms(5)])
  then show ?thesis
    using update_scan_found [OF assms(1-4)] assms(9) by (auto simp: strict_sublist_def)
qed

theorem substring_counts_as_granted_witness:
  "strict_sublist ''arn:aws:iam::123456789012:role/Test''
     ''arn:aws:iam::123456789012:role/TestRole'' \<and>
   update_trust_policy account_service ''TestRole'' (Some ''arn:aws:iam::123456789012:role/Test'')
     \<lparr>remote = account_with
        (policy [statement ''Allow'' (JStr ''arn:aws:iam::123456789012:role/TestRole'')]),
      trace = []\<rparr> =
     (Inr (),
      \<lparr>remote = account_with
         (policy [statement ''Allow'' (JStr ''arn:aws:iam::123456789012:role/TestRole'')]),
       trace = [Client ''iam'', GetRole ''TestRole'',
         Print (AlreadyAllowed (Some ''arn:aws:iam::123456789012:role/Test'') ''TestRole'')]\<rparr>)"
proof -
  let ?t = "''arn:aws:iam::123456789012:role/TestRole''"
  let ?doc = "policy [statement ''Allow'' (JStr ?t)]"
  have sub: "strict_sublist ''arn:aws:iam::123456789012:role/Test'' ?t"
    by (simp add: strict_sublist_def)
  have c: "client account_service ''iam'' (remote \<lparr>remote = account_with ?doc, trace = []\<rparr>)
      = (Inr (), account_with ?doc)"
    by (simp add: account_client)
  let ?p = "[(''AWS'', JStr ?t)]"
  let ?items = "[(''Effect'', JStr ''Allow''), (''Principal'', JObj ?p),
                 (''Action'', JStr ''sts:AssumeRole'')]"
  let ?kvs = "[(''Version'', JStr ''2012-10-17''), (''Statement'', JArr ([] @ JObj ?items # []))]"
  have f: "fetched_policy (get_role_response ''TestRole'' ?doc) = Inr (JObj ?kvs)"
    by (simp add: fetched_get_role_response policy_def statement_def)
  have m: "map_of ?kvs ''Statement'' = Some (JArr ([] @ JObj ?items # []))"
    by simp
  have sc: "scan (Some ''arn:aws:iam::123456789012:role/Test'') [] = Inr False"
    by simp
  have e: "map_of ?items ''Effect'' = Some (JStr ''Allow'')"
    by simp
  have pr: "map_of ?items ''Principal'' = Some (JObj ?p)"
    by simp
  have aws: "map_of ?p ''AWS'' = Some (JStr ?t)"
    by simp
  show ?thesis
    using substring_counts_as_granted [OF c account_with_get_role f m sc e pr aws sub] sub
    by simp
qed




section \<open>Granting twice\<close>




section \<open>Where remote failures are caught\<close>

text \<open>
  C7, as amended. With both clients created: a failing caller-identity call makes
  \<open>get_current_account_id\<close> and \<open>get_current_role_arn\<close> print and return \<^verbatim>\<open>None\<close>; a
  failing get-role call, and a failing update-assume-role-policy call, make
  \<open>update_trust_policy\<close> print and return normally; an assume-role call that raises a
  \<^verbatim>\<open>ClientError\<close> makes \<open>assume_role\<close> print and return \<^verbatim>\<open>None\<close>; and an assume-role
  call that raises any other exception is not caught: \<open>assume_role\<close> raises it, with
  nothing printed.
\<close>

theorem remote_failures_at_boundaries:
  assumes "client svc ''sts'' (remote w) = (Inr (), s)"
    and "client svc ''iam'' (remote w) = (Inr (), t)"
  shows
    "(\<forall>e s1. get_caller_identity svc s = (Inl e, s1) \<longrightarrow>
        get_current_account_id svc w =
          (None, \<lparr>remote = s1, trace = trace w @
             [Client ''sts'', GetCallerIdentity, Print (AccountIdError e)]\<rparr>) \<and>
        get_current_role_arn svc w =
          (None, \<lparr>remote = s1, trace = trace w @
             [Client ''sts'', GetCallerIdentity, Print (RoleArnError e)]\<rparr>)) \<and>
     (\<forall>e t1. get_role svc role t = (Inl e, t1) \<longrightarrow>
        update_trust_policy svc role arn w =
          (Inr (), \<lparr>remote = t1, trace = trace w @
             [Client ''iam'', GetRole role, Print (ErrorOccurred e)]\<rparr>)) \<and>
     (\<forall>response t1 kvs sts e t2.
        get_role svc role t = (Inr response, t1) \<and>
        fetched_policy response = Inr (JObj kvs) \<and>
        map_of kvs ''Statement'' = Some (JArr sts) \<and>
        scan arn sts = Inr False \<and>
        update_assume_role_policy svc role
          (JObj (AList.update ''Statement'' (JArr (sts @ [new_statement arn])) kvs)) t1 = (Inl e, t2) \<longrightarrow>
        update_trust_policy svc role arn w =
          (Inr (), \<lparr>remote = t2, trace = trace w @
             [Client ''iam'', GetRole role,
              UpdateAssumeRolePolicy role
                (JObj (AList.update ''Statement'' (JArr (sts @ [new_statement arn])) kvs)),
              Print (ErrorOccurred e)]\<rparr>)) \<and>
     (\<forall>c s1. sts_assume_role svc role_arn ''TestRoleSession'' s = (Inl (ClientError c), s1) \<longrightarrow>
        assume_role svc role_arn w =
          (Inr JNull, \<lparr>remote = s1, trace = trace w @
             [Client ''sts'', AssumeRole role_arn ''TestRoleSession'',
              Print (AssumeFailed (ClientError c))]\<rparr>)) \<and>
     (\<forall>e s1. sts_assume_role svc role_arn ''TestRoleSession'' s = (Inl e, s1) \<and>
        (\<forall>c. e \<noteq> ClientError c) \<longrightarrow>
        assume_role svc role_arn w =
          (Inl e, \<lparr>remote = s1, trace = trace w @
             [Client ''sts'', AssumeRole role_arn ''TestRoleSession'']\<rparr>))"
proof (intro conjI allI impI)
  fix e s1 assume "get_caller_identity svc s = (Inl e, s1)"
  then show "get_current_account_id svc w =
          (None, \<lparr>remote = s1, trace = trace w @
             [Client ''sts'', GetCallerIdentity, Print (AccountIdError e)]\<rparr>)"
    and "get_current_role_arn svc w =
          (None, \<lparr>remote = s1, trace = trace w @
             [Client ''sts'', GetCallerIdentity, Print (RoleArnError e)]\<rparr>)"
    using account_id_identity_raises [OF assms(1)] role_arn_identity_raises [OF assms(1)]
    by simp_all
next
  fix e t1 assume "get_role svc role t = (Inl e, t1)"
  then show "update_trust_policy svc role arn w =
          (Inr (), \<lparr>remote = t1, trace = trace w @
             [Client ''iam'', GetRole role, Print (ErrorOccurred e)]\<rparr>)"
    by (rule update_get_role_raises [OF assms(2)])
next
  fix response t1 kvs sts e t2
  assume h: "get_role svc role t = (Inr response, t1) \<and>
        fetched_policy response = Inr (JObj kvs) \<and>
        map_of kvs ''Statement'' = Some (JArr sts) \<and>
        scan arn sts = Inr False \<and>
        update_assume_role_policy svc role
          (JObj (AList.update ''Statement'' (JArr (sts @ [new_statement arn])) kvs)) t1 = (Inl e, t2)"
  show "update_trust_policy svc role arn w =
          (Inr (), \<lparr>remote = t2, trace = trace w @
             [Client ''iam'', GetRole role,
              UpdateAssumeRolePolicy role
                (JObj (AList.update ''Statement'' (JArr (sts @ [new_statement arn])) kvs)),
              Print (ErrorOccurred e)]\<rparr>)"
    using h update_write_raises [OF assms(2), of role response t1 kvs sts arn e t2] by blast
next
  fix c s1 assume "sts_assume_role svc role_arn ''TestRoleSession'' s = (Inl (ClientError c), s1)"
  then show "assume_role svc role_arn w =
          (Inr JNull, \<lparr>remote = s1, trace = trace w @
             [Client ''sts'', AssumeRole role_arn ''TestRoleSession'',
              Print (AssumeFailed (ClientError c))]\<rparr>)"
    by (rule assume_role_client_error [OF assms(1)])
next
  fix e s1 assume "sts_assume_role svc role_arn ''TestRoleSession'' s = (Inl e, s1) \<and>
        (\<forall>c. e \<noteq> ClientError c)"
  then show "assume_role svc role_arn w =
          (Inl e, \<lparr>remote = s1, trace = trace w @
             [Client ''sts'', AssumeRole role_arn ''TestRoleSession'']\<rparr>)"
    using assume_role_other_error [OF assms(1)] by blast
qed

theorem remote_failures_at_boundaries_witness:
  "get_current_account_id account_service \<lparr>remote = offline_account, trace = []\<rparr> =
     (None, \<lparr>remote = offline_account, trace = [Client ''sts'', GetCallerIdentity,
        Print (AccountIdError (BotoCoreError ''EndpointConnectionError''))]\<rparr>) \<and>
   get_current_role_arn account_service \<lparr>remote = offline_account, trace = []\<rparr> =
     (None, \<lparr>remote = offline_account, trace = [Client ''sts'', GetCallerIdentity,
        Print (RoleArnError (BotoCoreError ''EndpointConnectionError''))]\<rparr>) \<and>
   update_trust_policy account_service ''TestRole'' (Some dev_arn)
     \<lparr>remote = missing_role_account, trace = []\<rparr> =
     (Inr (), \<lparr>remote = missing_role_account, trace = [Client ''iam'', GetRole ''TestRole'',
        Print (ErrorOccurred (ClientError ''NoSuchEntity''))]\<rparr>) \<and>
   update_trust_policy account_service ''TestRole'' (Some dev_arn)
     \<lparr>remote = update_denied_account, trace = []\<rparr> =
     (Inr (), \<lparr>remote = update_denied_account, trace = [Client ''iam'', GetRole ''TestRole'',
        UpdateAssumeRolePolicy ''TestRole'' (policy [new_statement (Some dev_arn)]),
        Print (ErrorOccurred (ClientError ''AccessDenied''))]\<rparr>) \<and>
   assume_role account_service ''arn:aws:iam::123456789012:role/TestRole''
     \<lparr>remote = assume_denied_account, trace = []\<rparr> =
     (Inr JNull, \<lparr>remote = assume_denied_account, trace = [Client ''sts'',
        AssumeRole ''arn:aws:iam::123456789012:role/TestRole'' ''TestRoleSession'',
        Print (AssumeFailed (ClientError ''AccessDenied''))]\<rparr>) \<and>
   assume_role account_service ''arn:aws:iam::123456789012:role/TestRole''
     \<lparr>remote = assume_unreachable_account, trace = []\<rparr> =
     (Inl (BotoCoreError ''EndpointConnectionError''),
      \<lparr>remote = assume_unreachable_account, trace = [Client ''sts'',
        AssumeRole ''arn:aws:iam::123456789012:role/TestRole'' ''TestRoleSession'']\<rparr>)"
proof -
  let ?arn = "''arn:aws:iam::123456789012:role/TestRole''"
  let ?kvs = "[(''Version'', JStr ''2012-10-17''), (''Statement'', JArr [])]"
  have at: "\<And>a. client account_service ''sts'' (remote \<lparr>remote = a, trace = []\<rparr>) = (Inr (), a)"
    "\<And>a. client account_service ''iam'' (remote \<lparr>remote = a, trace = []\<rparr>) = (Inr (), a)"
    by (simp_all add: account_client)
  have id: "get_caller_identity account_service offline_account =
      (Inl (BotoCoreError ''EndpointConnectionError''), offline_account)"
    by (simp add: account_service_def offline_account_def)
  have gr: "get_role account_service ''TestRole'' missing_role_account =
      (Inl (ClientError ''NoSuchEntity''), missing_role_account)"
    by (simp add: account_service_def missing_role_account_def)
  have gu: "get_role account_service ''TestRole'' update_denied_account =
      (Inr (get_role_response ''TestRole'' (JObj ?kvs)), update_denied_account)"
    by (rule account_get_role) (simp add: update_denied_account_def test_account_def)
  have up: "update_assume_role_policy account_service ''TestRole''
      (JObj (AList.update ''Statement'' (JArr ([] @ [new_statement (Some dev_arn)])) ?kvs))
      update_denied_account = (Inl (ClientError ''AccessDenied''), update_denied_account)"
    by (simp add: account_service_def update_denied_account_def)
  have ad: "sts_assume_role account_service ?arn ''TestRoleSession'' assume_denied_account =
      (Inl (ClientError ''AccessDenied''), assume_denied_account)"
    by (simp add: account_service_def assume_denied_account_def)
  have au: "sts_assume_role account_service ?arn ''TestRoleSession'' assume_unreachable_account =
      (Inl (BotoCoreError ''EndpointConnectionError''), assume_unreachable_account)"
    by (simp add: account_service_def assume_unreachable_account_def)
  note th = remote_failures_at_boundaries [OF at(1) at(2), of _ "''TestRole''" "Some dev_arn" ?arn]
  have 1: "get_current_account_id account_service \<lparr>remote = offline_account, trace = []\<rparr> =
     (None, \<lparr>remote = offline_account, trace = [Client ''sts'', GetCallerIdentity,
        Print (AccountIdError (BotoCoreError ''EndpointConnectionError''))]\<rparr>) \<and>
   get_current_role_arn account_service \<lparr>remote = offline_account, trace = []\<rparr> =
     (None, \<lparr>remote = offline_account, trace = [Client ''sts'', GetCallerIdentity,
        Print (RoleArnError (BotoCoreError ''EndpointConnectionError''))]\<rparr>)"
    using th [of offline_account] id by simp
  have 2: "update_trust_policy account_service ''TestRole'' (Some dev_arn)
     \<lparr>remote = missing_role_account, trace = []\<rparr> =
     (Inr (), \<lparr>remote = missing_role_account, trace = [Client ''iam'', GetRole ''TestRole'',
        Print (ErrorOccurred (ClientError ''NoSuchEntity''))]\<rparr>)"
    using th [of missing_role_account] gr by simp
  have 3: "update_trust_policy account_service ''TestRole'' (Some dev_arn)
     \<lparr>remote = update_denied_account, trace = []\<rparr> =
     (Inr (), \<lparr>remote = update_denied_account, trace = [Client ''iam'', GetRole ''TestRole'',
        UpdateAssumeRolePolicy ''TestRole'' (policy [new_statement (Some dev_arn)]),
        Print (ErrorOccurred (ClientError ''AccessDenied''))]\<rparr>)"
  proof -
    have "get_role account_service ''TestRole'' update_denied_account =
            (Inr (get_role_response ''TestRole'' (JObj ?kvs)), update_denied_account) \<and>
        fetched_policy (get_role_response ''TestRole'' (JObj ?kvs)) = Inr (JObj ?kvs) \<and>
        map_of ?kvs ''Statement'' = Some (JArr []) \<and>
        scan (Some dev_arn) [] = Inr False \<and>
        update_assume_role_policy account_service ''TestRole''
          (JObj (AList.update ''Statement'' (JArr ([] @ [new_statement (Some dev_arn)])) ?kvs))
          update_denied_account = (Inl (ClientError ''AccessDenied''), update_denied_account)"
      using gu up by (simp add: fetched_get_role_response)
    with th [of update_denied_account] show ?thesis
      by (simp add: policy_def)
  qed
  have 4: "assume_role account_service ?arn \<lparr>remote = assume_denied_account, trace = []\<rparr> =
     (Inr JNull, \<lparr>remote = assume_denied_account, trace = [Client ''sts'',
        AssumeRole ?arn ''TestRoleSession'',
        Print (AssumeFailed (ClientError ''AccessDenied''))]\<rparr>)"
    using th [of assume_denied_account] ad by simp
  have 5: "assume_role account_service ?arn \<lparr>remote = assume_unreachable_account, trace = []\<rparr> =
     (Inl (BotoCoreError ''EndpointConnectionError''),
      \<lparr>remote = assume_unreachable_account, trace = [Client ''sts'',
        AssumeRole ?arn ''TestRoleSession'']\<rparr>)"
    using th [of assume_unreachable_account] au by simp
  show ?thesis using 1 2 3 4 5 by simp
qed

text \<open>
  C7 as stated fails: when the assume-role call raises an endpoint connection error, which is
  a remote-call failure but not a \<^verbatim>\<open>ClientError\<close>, \<open>assume_role\<close> raises it instead of
  returning \<^verbatim>\<open>None\<close>.
\<close>

theorem assume_role_network_failure_counterexample:
  "sts_assume_role account_service ''arn:aws:iam::123456789012:role/TestRole'' ''TestRoleSession''
     assume_unreachable_account =
     (Inl (BotoCoreError ''EndpointConnectionError''), assume_unreachable_account) \<and>
   assume_role account_service ''arn:aws:iam::123456789012:role/TestRole''
     \<lparr>remote = assume_unreachable_account, trace = []\<rparr> =
     (Inl (BotoCoreError ''EndpointConnectionError''),
      \<lparr>remote = assume_unreachable_account,
       trace = [Client ''sts'',
         AssumeRole ''arn:aws:iam::123456789012:role/TestRole'' ''TestRoleSession'']\<rparr>)"
  by (simp add: assume_role_def assume_role_try_def invoke_def account_service_def
        assume_unreachable_account_def)

section \<open>The orchestrator when the identity lookup fails\<close>

text \<open>
  C1, as amended. When \<open>get_current_role_arn\<close> returns \<^verbatim>\<open>None\<close> the flow does not halt:
  \<open>update_trust_policy\<close> is called with \<^verbatim>\<open>None\<close> and, its IAM client created, issues the
  get-role call and returns normally; the role ARN is then built and \<open>assume_role\<close> is
  called, whose outcome is the outcome of \<open>auto_assume\<close>. With the STS client created the
  assume-role call is issued, and when it raises a \<^verbatim>\<open>ClientError\<close> the result is \<^verbatim>\<open>None\<close>.
\<close>

theorem auto_assume_without_identity:
  assumes "get_current_role_arn svc w = (None, w1)"
    and "client svc ''iam'' (remote w1) = (Inr (), s)"
    and "update_trust_policy svc role_name None w1 = (r, w2)"
    and "construct_role_arn svc role_name w2 = (role_arn, w3)"
  shows "r = Inr () \<and>
     prefix (trace w1 @ [Client ''iam'', GetRole role_name]) (trace w2) \<and>
     prefix (trace w2) (trace w3) \<and>
     auto_assume svc role_name w = assume_role svc role_arn w3 \<and>
     prefix (trace w3 @ [Client ''sts'']) (trace (snd (auto_assume svc role_name w))) \<and>
     (\<forall>s3. client svc ''sts'' (remote w3) = (Inr (), s3) \<longrightarrow>
        prefix (trace w3 @ [Client ''sts'', AssumeRole role_arn ''TestRoleSession''])
          (trace (snd (auto_assume svc role_name w))) \<and>
        (\<forall>c s4. sts_assume_role svc role_arn ''TestRoleSession'' s3 = (Inl (ClientError c), s4) \<longrightarrow>
           fst (auto_assume svc role_name w) = Inr JNull))"
proof -
  have r: "r = Inr ()"
    using update_returns_normally [OF assms(2), of role_name None] assms(3) by simp
  have p2: "prefix (trace w1 @ [Client ''iam'', GetRole role_name]) (trace w2)"
    using update_trace_prefix [OF assms(2), of role_name None] assms(3) by simp
  have p3: "prefix (trace w2) (trace w3)"
    using construct_trace [of w2 svc role_name] assms(4) by simp
  have eq: "auto_assume svc role_name w = assume_role svc role_arn w3"
    using assms(1,3,4) r by (simp add: auto_assume_def)
  have p4: "prefix (trace w3 @ [Client ''sts'']) (trace (snd (auto_assume svc role_name w)))"
    unfolding eq by (rule assume_role_trace)
  have p5: "prefix (trace w3 @ [Client ''sts'', AssumeRole role_arn ''TestRoleSession''])
          (trace (snd (auto_assume svc role_name w))) \<and>
        (\<forall>c s4. sts_assume_role svc role_arn ''TestRoleSession'' s3 = (Inl (ClientError c), s4) \<longrightarrow>
           fst (auto_assume svc role_name w) = Inr JNull)"
    if c: "client svc ''sts'' (remote w3) = (Inr (), s3)" for s3
    unfolding eq
    using assume_role_call_trace [OF c, of role_arn] assume_role_client_error [OF c, of role_arn]
    by simp
  show ?thesis using r p2 p3 eq p4 p5 by blast
qed

theorem auto_assume_without_identity_witness:
  "get_current_role_arn account_service \<lparr>remote = expired_token_account, trace = []\<rparr> =
     (None, \<lparr>remote = expired_token_account, trace = [Client ''sts'', GetCallerIdentity,
        Print (RoleArnError (ClientError ''ExpiredToken''))]\<rparr>) \<and>
   prefix [Client ''sts'', GetCallerIdentity, Print (RoleArnError (ClientError ''ExpiredToken'')),
           Client ''iam'', GetRole ''TestRole'']
     (trace (snd (update_trust_policy account_service ''TestRole'' None
        \<lparr>remote = expired_token_account, trace = [Client ''sts'', GetCallerIdentity,
           Print (RoleArnError (ClientError ''ExpiredToken''))]\<rparr>))) \<and>
   auto_assume account_service ''TestRole'' \<lparr>remote = expired_token_account, trace = []\<rparr> =
     assume_role account_service ''arn:aws:iam::None:role/TestRole''
       \<lparr>remote = expired_token_account, trace = [Client ''sts'', GetCallerIdentity,
          Print (RoleArnError (ClientError ''ExpiredToken'')),
          Client ''iam'', GetRole ''TestRole'',
          UpdateAssumeRolePolicy ''TestRole'' (policy [new_statement None]),
          Print (ErrorOccurred (ClientError ''MalformedPolicyDocument'')),
          Client ''sts'', GetCallerIdentity,
          Print (AccountIdError (ClientError ''ExpiredToken''))]\<rparr> \<and>
   fst (auto_assume account_service ''TestRole'' \<lparr>remote = expired_token_account, trace = []\<rparr>)
     = Inr JNull"
proof -
  let ?a = expired_token_account
  let ?e = "ClientError ''ExpiredToken''"
  let ?t1 = "[Client ''sts'', GetCallerIdentity, Print (RoleArnError ?e)]"
  let ?t2 = "?t1 @ [Client ''iam'', GetRole ''TestRole'',
          UpdateAssumeRolePolicy ''TestRole'' (policy [new_statement None]),
          Print (ErrorOccurred (ClientError ''MalformedPolicyDocument''))]"
  let ?t3 = "?t2 @ [Client ''sts'', GetCallerIdentity, Print (AccountIdError ?e)]"
  let ?arn = "''arn:aws:iam::None:role/TestRole''"
  have g: "get_current_role_arn account_service \<lparr>remote = ?a, trace = []\<rparr> =
      (None, \<lparr>remote = ?a, trace = ?t1\<rparr>)"
    by code_simp
  have ci: "client account_service ''iam'' (remote \<lparr>remote = ?a, trace = ?t1\<rparr>) = (Inr (), ?a)"
    by (simp add: account_client)
  have u: "update_trust_policy account_service ''TestRole'' None \<lparr>remote = ?a, trace = ?t1\<rparr> =
      (Inr (), \<lparr>remote = ?a, trace = ?t2\<rparr>)"
    by code_simp
  have c: "construct_role_arn account_service ''TestRole'' \<lparr>remote = ?a, trace = ?t2\<rparr> =
      (?arn, \<lparr>remote = ?a, trace = ?t3\<rparr>)"
    by code_simp
  have cs: "client account_service ''sts'' (remote \<lparr>remote = ?a, trace = ?t3\<rparr>) = (Inr (), ?a)"
    by (simp add: account_client)
  have ar: "sts_assume_role account_service ?arn ''TestRoleSession'' ?a = (Inl ?e, ?a)"
    by (simp add: account_service_def expired_token_account_def)
  note th = auto_assume_without_identity [OF g ci u c]
  have p: "prefix (?t1 @ [Client ''iam'', GetRole ''TestRole''])
      (trace (snd (update_trust_policy account_service ''TestRole'' None
         \<lparr>remote = ?a, trace = ?t1\<rparr>)))"
    using th u by simp
  have eq: "auto_assume account_service ''TestRole'' \<lparr>remote = ?a, trace = []\<rparr> =
      assume_role account_service ?arn \<lparr>remote = ?a, trace = ?t3\<rparr>"
    using th by blast
  have null: "fst (auto_assume account_service ''TestRole'' \<lparr>remote = ?a, trace = []\<rparr>)
      = Inr JNull"
    using th cs ar by blast
  from g p eq null show ?thesis
    by (intro conjI) simp_all
qed

text \<open>
  C1 as stated fails: with the security-token service unreachable, the identity lookup
  fails, and \<open>auto_assume\<close> still issues the get-role call, attempts the write of a
  statement whose principal is \<^verbatim>\<open>None\<close>, and attempts the assume-role call, whose
  connection error it raises instead of returning \<^verbatim>\<open>None\<close>.
\<close>

theorem auto_assume_without_identity_counterexample:
  "get_current_role_arn account_service \<lparr>remote = sts_down_account, trace = []\<rparr> =
     (None, \<lparr>remote = sts_down_account, trace = [Client ''sts'', GetCallerIdentity,
        Print (RoleArnError (BotoCoreError ''EndpointConnectionError''))]\<rparr>) \<and>
   auto_assume account_service ''TestRole'' \<lparr>remote = sts_down_account, trace = []\<rparr> =
     (Inl (BotoCoreError ''EndpointConnectionError''),
      \<lparr>remote = sts_down_account,
       trace = [Client ''sts'', GetCallerIdentity,
         Print (RoleArnError (BotoCoreError ''EndpointConnectionError'')),
         Client ''iam'', GetRole ''TestRole'',
         UpdateAssumeRolePolicy ''TestRole'' (policy [new_statement None]),
         Print (ErrorOccurred (ClientError ''MalformedPolicyDocument'')),
         Client ''sts'', GetCallerIdentity,
         Print (AccountIdError (BotoCoreError ''EndpointConnectionError'')),
         Client ''sts'', AssumeRole ''arn:aws:iam::None:role/TestRole'' ''TestRoleSession'']\<rparr>)"
  by code_simp

end
